theory Spec2Isabelle
  imports Main
begin

section \<open>The Result value type\<close>

text \<open>
  \<^verbatim>\<open>type Result<T, E> = Ok<T, E> | Err<T, E>\<close>: the class \<open>OkImpl\<close> holds the field
  \<open>value\<close>, the class \<open>ErrImpl\<close> holds the field \<open>error\<close>. The flags \<open>isOk\<close>, \<open>isErr\<close>
  and the tag \<open>_tag\<close> are constants of each class, so they are functions of the variant.
\<close>

datatype ('t, 'e) result = Ok 't | Err 'e

fun isOk :: "('t, 'e) result \<Rightarrow> bool" where
  "isOk (Ok v) = True"
| "isOk (Err e) = False"

fun isErr :: "('t, 'e) result \<Rightarrow> bool" where
  "isErr (Ok v) = False"
| "isErr (Err e) = True"

text \<open>The constructors \<open>ok(value)\<close> and \<open>err(error)\<close>.\<close>

definition ok :: "'t \<Rightarrow> ('t, 'e) result" where
  "ok v = Ok v"

definition err :: "'e \<Rightarrow> ('t, 'e) result" where
  "err e = Err e"

section \<open>Synchronous aggregators\<close>

text \<open>
  \<open>combine\<close>: the loop \<^verbatim>\<open>for (const result of results)\<close> with the accumulator
  \<open>values\<close>; it returns from inside the loop at the first \<open>Err\<close>.
\<close>

fun combine_loop :: "'t list \<Rightarrow> ('t, 'e) result list \<Rightarrow> ('t list, 'e) result" where
  "combine_loop values [] = ok values"
| "combine_loop values (r # results) =
     (case r of
        Err e \<Rightarrow> err e
      | Ok v \<Rightarrow> combine_loop (values @ [v]) results)"

definition combine :: "('t, 'e) result list \<Rightarrow> ('t list, 'e) result" where
  "combine results = combine_loop [] results"

text \<open>
  \<open>combineWithAllErrors\<close>: the loop runs over the whole input with the two accumulators
  \<open>values\<close> and \<open>errors\<close>; the test \<^verbatim>\<open>errors.length > 0\<close> comes after the loop.
\<close>

fun combineWithAllErrors_loop ::
  "'t list \<Rightarrow> 'e list \<Rightarrow> ('t, 'e) result list \<Rightarrow> 't list \<times> 'e list" where
  "combineWithAllErrors_loop values errors [] = (values, errors)"
| "combineWithAllErrors_loop values errors (r # results) =
     (case r of
        Err e \<Rightarrow> combineWithAllErrors_loop values (errors @ [e]) results
      | Ok v \<Rightarrow> combineWithAllErrors_loop (values @ [v]) errors results)"

definition combineWithAllErrors :: "('t, 'e) result list \<Rightarrow> ('t list, 'e list) result" where
  "combineWithAllErrors results =
     (case combineWithAllErrors_loop [] [] results of
        (values, errors) \<Rightarrow> if length errors > 0 then err errors else ok values)"

text \<open>\<open>all\<close>: the same loop as \<open>combine\<close>, written again for a homogeneous list.\<close>

fun all_loop :: "'t list \<Rightarrow> ('t, 'e) result list \<Rightarrow> ('t list, 'e) result" where
  "all_loop values [] = ok values"
| "all_loop values (r # results) =
     (case r of
        Err e \<Rightarrow> err e
      | Ok v \<Rightarrow> all_loop (values @ [v]) results)"

definition all :: "('t, 'e) result list \<Rightarrow> ('t list, 'e) result" where
  "all results = all_loop [] results"

text \<open>
  \<open>any\<close>: \<^verbatim>\<open>let lastError: E | undefined\<close> starts as \<open>undefined\<close>; the type
  \<open>E | undefined\<close> is \<open>'e option\<close> with \<open>None\<close> for \<open>undefined\<close>. The final
  \<^verbatim>\<open>err(lastError as E)\<close> is a cast without a check, so the error payload of the
  returned value has the type \<open>E | undefined\<close> at run time.
\<close>

fun any_loop :: "'e option \<Rightarrow> ('t, 'e) result list \<Rightarrow> ('t, 'e option) result" where
  "any_loop lastError [] = err lastError"
| "any_loop lastError (r # results) =
     (case r of
        Ok v \<Rightarrow> Ok v
      | Err e \<Rightarrow> any_loop (Some e) results)"

definition any :: "('t, 'e) result list \<Rightarrow> ('t, 'e option) result" where
  "any results = any_loop None results"

section \<open>Calls that may throw or have side effects\<close>

text \<open>
  A \<^verbatim>\<open>throw\<close> statement throws any value. The library itself throws
  \<^verbatim>\<open>new Error(message)\<close>; callbacks may throw anything else.
\<close>

datatype 'x thrown = JsError string | JsValue 'x

text \<open>
  A call of a JavaScript function runs in a state \<open>'s\<close> (whatever the callbacks can
  observe and change), and either returns a value (\<open>Inr\<close>) or throws (\<open>Inl\<close>).
\<close>

type_synonym ('s, 'x, 'a) js = "'s \<Rightarrow> ('x thrown + 'a) \<times> 's"

definition js_return :: "'a \<Rightarrow> ('s, 'x, 'a) js" where
  "js_return a = (\<lambda>s. (Inr a, s))"

definition js_throw :: "'x thrown \<Rightarrow> ('s, 'x, 'a) js" where
  "js_throw x = (\<lambda>s. (Inl x, s))"

text \<open>Evaluate \<open>m\<close>, then continue with its value; an exception of \<open>m\<close> ends both.\<close>

definition js_bind :: "('s, 'x, 'a) js \<Rightarrow> ('a \<Rightarrow> ('s, 'x, 'b) js) \<Rightarrow> ('s, 'x, 'b) js" where
  "js_bind m k = (\<lambda>s. case m s of (Inl x, s') \<Rightarrow> (Inl x, s') | (Inr a, s') \<Rightarrow> k a s')"

text \<open>\<^verbatim>\<open>try { m } catch (error) { h(error) }\<close>.\<close>

definition js_try_catch ::
  "('s, 'x, 'a) js \<Rightarrow> ('x thrown \<Rightarrow> ('s, 'x, 'a) js) \<Rightarrow> ('s, 'x, 'a) js" where
  "js_try_catch m h = (\<lambda>s. case m s of (Inl x, s') \<Rightarrow> h x s' | (Inr a, s') \<Rightarrow> (Inr a, s'))"

text \<open>
  The built-in \<open>String(v)\<close> is not code of the library. On a payload it may run the
  payload's own \<open>toString\<close>, so it is a call like any other: it may change the state,
  and it may throw (a \<open>TypeError\<close> for an object without a prototype, or whatever
  \<open>toString\<close> throws). For the payload types it is a parameter \<open>str\<close> of the functions
  that call it. On an \<open>Error\<close> object made by \<^verbatim>\<open>new Error(message)\<close> it returns
  \<open>Error\<close> for an empty message and \<open>Error: message\<close> otherwise.
\<close>

fun String_thrown :: "('x \<Rightarrow> ('s, 'x, string) js) \<Rightarrow> 'x thrown \<Rightarrow> ('s, 'x, string) js" where
  "String_thrown str (JsError m) = js_return (if m = [] then ''Error'' else ''Error: '' @ m)"
| "String_thrown str (JsValue x) = str x"

section \<open>The methods of \<open>OkImpl\<close> and \<open>ErrImpl\<close>\<close>

text \<open>
  Each method is one function with an equation for \<open>OkImpl\<close> and one for \<open>ErrImpl\<close>.
  A callback argument is a function into \<open>js\<close>. The two implementation files have
  the same text for every method but \<open>ErrImpl.orElse\<close>.
\<close>

fun map_result ::
  "('t, 'e) result \<Rightarrow> ('t \<Rightarrow> ('s, 'x, 'u) js) \<Rightarrow> ('s, 'x, ('u, 'e) result) js" where
  "map_result (Ok v) fn = js_bind (fn v) (\<lambda>u. js_return (ok u))"
| "map_result (Err e) fn = js_return (err e)"

fun mapErr ::
  "('t, 'e) result \<Rightarrow> ('e \<Rightarrow> ('s, 'x, 'f) js) \<Rightarrow> ('s, 'x, ('t, 'f) result) js" where
  "mapErr (Ok v) fn = js_return (ok v)"
| "mapErr (Err e) fn = js_bind (fn e) (\<lambda>f. js_return (err f))"

fun andThen ::
  "('t, 'e) result \<Rightarrow> ('t \<Rightarrow> ('s, 'x, ('u, 'e) result) js) \<Rightarrow> ('s, 'x, ('u, 'e) result) js" where
  "andThen (Ok v) fn = fn v"
| "andThen (Err e) fn = js_return (err e)"

text \<open>
  \<open>ErrImpl.orElse\<close> of the first implementation file:
  \<^verbatim>\<open>try { return fn(this.error) }
  catch (error) { throw new Error(`orElse handler threw: ${String(error)}`) }\<close>
  The call \<open>String(error)\<close> is inside the \<open>catch\<close> block, outside any \<open>try\<close>: when
  it throws, no \<open>Error\<close> is made and its exception leaves \<open>orElse\<close>.
\<close>

fun orElse ::
  "('x \<Rightarrow> ('s, 'x, string) js) \<Rightarrow> ('t, 'e) result \<Rightarrow> ('e \<Rightarrow> ('s, 'x, ('t, 'f) result) js)
     \<Rightarrow> ('s, 'x, ('t, 'f) result) js" where
  "orElse str (Ok v) fn = js_return (ok v)"
| "orElse str (Err e) fn =
     js_try_catch (fn e)
       (\<lambda>error. js_bind (String_thrown str error)
          (\<lambda>text. js_throw (JsError (''orElse handler threw: '' @ text))))"

text \<open>
  \<open>ErrImpl.orElse\<close> of the second implementation file:
  \<^verbatim>\<open>return fn(this.error)\<close>
\<close>

fun orElse_second ::
  "('t, 'e) result \<Rightarrow> ('e \<Rightarrow> ('s, 'x, ('t, 'f) result) js) \<Rightarrow> ('s, 'x, ('t, 'f) result) js" where
  "orElse_second (Ok v) fn = js_return (ok v)"
| "orElse_second (Err e) fn = fn e"

fun match_result ::
  "('t, 'e) result \<Rightarrow> ('t \<Rightarrow> ('s, 'x, 'u) js) \<Rightarrow> ('e \<Rightarrow> ('s, 'x, 'u) js) \<Rightarrow> ('s, 'x, 'u) js" where
  "match_result (Ok v) ok_pattern err_pattern = ok_pattern v"
| "match_result (Err e) ok_pattern err_pattern = err_pattern e"

text \<open>
  \<open>unwrap\<close> and \<open>expect\<close>: \<open>str\<close> is \<open>String\<close> on the error payload. On \<open>Err\<close> the
  message is built first, \<^verbatim>\<open>`Called unwrap on an Err value: ${String(this.error)}`\<close>,
  then the \<open>Error\<close> is made and thrown; an exception of \<open>String\<close> comes before both.
\<close>

fun unwrap :: "('e \<Rightarrow> ('s, 'x, string) js) \<Rightarrow> ('t, 'e) result \<Rightarrow> ('s, 'x, 't) js" where
  "unwrap str (Ok v) = js_return v"
| "unwrap str (Err e) =
     js_bind (str e) (\<lambda>text. js_throw (JsError (''Called unwrap on an Err value: '' @ text)))"

fun unwrapOr :: "('t, 'e) result \<Rightarrow> 't \<Rightarrow> 't" where
  "unwrapOr (Ok v) defaultValue = v"
| "unwrapOr (Err e) defaultValue = defaultValue"

fun unwrapOrElse :: "('t, 'e) result \<Rightarrow> ('e \<Rightarrow> ('s, 'x, 't) js) \<Rightarrow> ('s, 'x, 't) js" where
  "unwrapOrElse (Ok v) fn = js_return v"
| "unwrapOrElse (Err e) fn = fn e"

text \<open>\<open>expect\<close>: the message is \<^verbatim>\<open>`${msg}: ${String(this.error)}`\<close>.\<close>

fun expect ::
  "('e \<Rightarrow> ('s, 'x, string) js) \<Rightarrow> ('t, 'e) result \<Rightarrow> string \<Rightarrow> ('s, 'x, 't) js" where
  "expect str (Ok v) msg = js_return v"
| "expect str (Err e) msg =
     js_bind (str e) (\<lambda>text. js_throw (JsError (msg @ '': '' @ text)))"

section \<open>Construction helpers\<close>

text \<open>
  \<open>tryCatch\<close>:
  \<^verbatim>\<open>try { return ok(fn()) }
  catch (error) { return err(errorHandler ? errorHandler(error) : error as E) }\<close>
  The caught value has the type \<open>unknown\<close>, and \<^verbatim>\<open>error as E\<close> is a cast without a
  check: the error payload is any value that can be thrown. The optional parameter
  \<open>errorHandler\<close> is an \<open>option\<close>.
\<close>

definition tryCatch ::
  "('s, 'x, 't) js \<Rightarrow> ('x thrown \<Rightarrow> ('s, 'x, 'x thrown) js) option
     \<Rightarrow> ('s, 'x, ('t, 'x thrown) result) js" where
  "tryCatch fn errorHandler =
     js_try_catch (js_bind fn (\<lambda>v. js_return (ok v)))
       (\<lambda>error. case errorHandler of
                   Some handler \<Rightarrow> js_bind (handler error) (\<lambda>e. js_return (err e))
                 | None \<Rightarrow> js_return (err error))"

text \<open>
  \<open>fromNullable\<close>:
  \<^verbatim>\<open>return value != null ? ok(value as NonNullable<T>) : err(error)\<close>
  The parameter has the type \<^verbatim>\<open>T | null | undefined\<close>. The test \<^verbatim>\<open>value != null\<close>
  is the loose inequality, false for \<open>null\<close> and for \<open>undefined\<close> and true for every
  other value. The cast \<^verbatim>\<open>value as NonNullable<T>\<close> does nothing at run time: the
  payload of the \<open>Ok\<close> is \<open>value\<close> itself, whatever it is.
\<close>

datatype 't nullable = JsNull | JsUndefined | NonNull 't

fun loose_ne_null :: "'t nullable \<Rightarrow> bool" where
  "loose_ne_null JsNull = False"
| "loose_ne_null JsUndefined = False"
| "loose_ne_null (NonNull v) = True"

definition fromNullable :: "'t nullable \<Rightarrow> 'e \<Rightarrow> ('t nullable, 'e) result" where
  "fromNullable val error = (if loose_ne_null val then ok val else err error)"

section \<open>Asynchronous aggregators\<close>

text \<open>
  A promise is settled at some time, fulfilled with a value (\<open>Inr\<close>) or rejected with a
  reason (\<open>Inl\<close>). The settle time stands for the completion order of the operations.
\<close>

datatype ('x, 'a) promise = Promise nat "'x thrown + 'a"

text \<open>
  The built-in \<open>Promise.all\<close>, then \<open>await\<close>: when every promise is fulfilled the value
  is the list of their values by index; otherwise the \<open>await\<close> throws the reason of the
  promise that was rejected first in time (the lower index on equal times).
\<close>

fun fulfilled_values :: "('x, 'a) promise list \<Rightarrow> 'a list" where
  "fulfilled_values [] = []"
| "fulfilled_values (Promise t (Inr a) # ps) = a # fulfilled_values ps"
| "fulfilled_values (Promise t (Inl x) # ps) = fulfilled_values ps"

fun first_rejection ::
  "(nat \<times> 'x thrown) option \<Rightarrow> ('x, 'a) promise list \<Rightarrow> (nat \<times> 'x thrown) option" where
  "first_rejection best [] = best"
| "first_rejection best (Promise t (Inr a) # ps) = first_rejection best ps"
| "first_rejection best (Promise t (Inl x) # ps) =
     (case best of
        None \<Rightarrow> first_rejection (Some (t, x)) ps
      | Some (t', x') \<Rightarrow>
          if t < t' then first_rejection (Some (t, x)) ps else first_rejection best ps)"

definition await_Promise_all :: "('x, 'a) promise list \<Rightarrow> ('s, 'x, 'a list) js" where
  "await_Promise_all ps =
     (case first_rejection None ps of
        Some (t, x) \<Rightarrow> js_throw x
      | None \<Rightarrow> js_return (fulfilled_values ps))"

text \<open>
  \<^verbatim>\<open>operations.map(op => op())\<close>: every operation is called, in index order, before any
  promise is awaited. The state records what the calls do up to the point where they
  hand back their promise; a call that throws ends the \<open>map\<close>.
\<close>

fun call_each ::
  "('s, 'x, ('x, 'a) promise) js list \<Rightarrow> ('s, 'x, ('x, 'a) promise list) js" where
  "call_each [] = js_return []"
| "call_each (op # operations) =
     js_bind op (\<lambda>p. js_bind (call_each operations) (\<lambda>ps. js_return (p # ps)))"

text \<open>
  \<open>parallel\<close>:
  \<^verbatim>\<open>const results = await Promise.all(operations.map(op => op()))
  return combine(results)\<close>
  The result is the settled outcome of the promise that the \<open>async\<close> function returns:
  \<open>Inr\<close> when it is fulfilled, \<open>Inl\<close> when it is rejected.
\<close>

definition parallel ::
  "('s, 'x, ('x, ('t, 'e) result) promise) js list \<Rightarrow> ('s, 'x, ('t list, 'e) result) js" where
  "parallel operations =
     js_bind (call_each operations) (\<lambda>promises.
     js_bind (await_Promise_all promises) (\<lambda>results.
     js_return (combine results)))"

text \<open>
  Helpers used to state the properties of \<open>parallel\<close>: the results that the
  operations' promises are fulfilled with, by index, each operation called in the state
  that the calls before it have left.
\<close>

fun op_results :: "('s, 'x, ('x, 'a) promise) js list \<Rightarrow> 's \<Rightarrow> 'a list" where
  "op_results [] s = []"
| "op_results (op # operations) s =
     (case op s of
        (Inr (Promise t (Inr r)), s') \<Rightarrow> r # op_results operations s'
      | (Inr (Promise t (Inl x)), s') \<Rightarrow> op_results operations s'
      | (Inl x, s') \<Rightarrow> op_results operations s')"

text \<open>Helpers used to state the properties: the payloads of a list of results.\<close>

fun ok_values :: "('t, 'e) result list \<Rightarrow> 't list" where
  "ok_values [] = []"
| "ok_values (Ok v # rs) = v # ok_values rs"
| "ok_values (Err e # rs) = ok_values rs"

fun err_values :: "('t, 'e) result list \<Rightarrow> 'e list" where
  "err_values [] = []"
| "err_values (Ok v # rs) = err_values rs"
| "err_values (Err e # rs) = e # err_values rs"

section \<open>Concrete callbacks for the examples\<close>

text \<open>
  A spy counts its calls in the state and throws, so that a call of it can never go
  unnoticed.
\<close>

definition spy :: "'a \<Rightarrow> (nat, 'x, 'b) js" where
  "spy v = (\<lambda>calls. (Inl (JsError ''spy was called''), Suc calls))"

text \<open>A thunk that throws, a handler that throws, and a handler that returns.\<close>

definition throwing_thunk :: "(nat, string, int) js" where
  "throwing_thunk = js_throw (JsValue ''first'')"

definition throwing_handler :: "string thrown \<Rightarrow> (nat, string, string thrown) js" where
  "throwing_handler error = js_throw (JsValue ''second'')"

definition message_handler :: "string thrown \<Rightarrow> (nat, string, string thrown) js" where
  "message_handler error =
     (case error of
        JsValue m \<Rightarrow> js_return (JsValue (''handled: '' @ m))
      | JsError m \<Rightarrow> js_return (JsValue (''handled: '' @ m)))"

text \<open>
  \<open>String\<close> on a string returns it. A small universe of other values: a text, an
  object without a prototype (\<^verbatim>\<open>Object.create(null)\<close>), on which \<open>String\<close> throws a
  \<open>TypeError\<close>, and the \<open>TypeError\<close> itself.
\<close>

definition String_string :: "string \<Rightarrow> ('s, 'x, string) js" where
  "String_string t = js_return t"

datatype jsobj = Text string | NullPrototypeObject | TypeError string

fun String_jsobj :: "jsobj \<Rightarrow> ('s, jsobj, string) js" where
  "String_jsobj (Text t) = js_return t"
| "String_jsobj NullPrototypeObject =
     js_throw (JsValue (TypeError ''Cannot convert object to primitive value''))"
| "String_jsobj (TypeError m) = js_return (''TypeError: '' @ m)"

text \<open>Handlers for \<open>orElse\<close>: one throws, one recovers.\<close>

definition boom_handler :: "string \<Rightarrow> (nat, string, (int, string) result) js" where
  "boom_handler e = js_throw (JsValue ''boom'')"

definition recover_handler :: "string \<Rightarrow> (nat, string, (int, string) result) js" where
  "recover_handler e = js_return (ok 0)"

text \<open>A handler for \<open>orElse\<close> that throws an object without a prototype.\<close>

definition opaque_handler :: "string \<Rightarrow> (nat, jsobj, (int, string) result) js" where
  "opaque_handler e = js_throw (JsValue NullPrototypeObject)"

text \<open>
  An operation for \<open>parallel\<close>: it counts its call in the state and hands back a promise
  that is fulfilled at time \<open>t\<close> with the result \<open>r\<close>.
\<close>

definition counted_op ::
  "nat \<Rightarrow> (int, string) result \<Rightarrow> (nat, string, (string, (int, string) result) promise) js" where
  "counted_op t r = (\<lambda>executed. (Inr (Promise t (Inr r)), Suc executed))"

section \<open>Properties of the aggregators\<close>

lemma combine_loop_map_Ok: "combine_loop acc (map Ok vs) = Ok (acc @ vs)"
  by (induction vs arbitrary: acc) (simp_all add: ok_def)

lemma combine_loop_map_Ok_Err: "combine_loop acc (map Ok vs @ Err e # ys) = Err e"
  by (induction vs arbitrary: acc) (simp_all add: err_def)

lemma combine_map_Ok: "combine (map Ok vs) = Ok vs"
  by (simp add: combine_def combine_loop_map_Ok)

lemma combine_first_Err: "combine (map Ok vs @ Err e # ys) = Err e"
  by (simp add: combine_def combine_loop_map_Ok_Err)

text \<open>Every list of results is all \<open>Ok\<close>, or has a first \<open>Err\<close> after a run of \<open>Ok\<close>.\<close>

lemma result_list_shape:
  fixes rs :: "('t, 'e) result list"
  shows "(\<exists>vs. rs = map Ok vs) \<or> (\<exists>vs e ys. rs = map Ok vs @ Err e # ys)"
proof (induction rs)
  case Nil
  then show ?case by simp
next
  case (Cons r rs)
  show ?case
  proof (cases r)
    case (Ok v)
    from Cons.IH show ?thesis
    proof
      assume "\<exists>vs. rs = map Ok vs"
      then obtain vs where "rs = map Ok vs" ..
      then have "r # rs = map Ok (v # vs)" using Ok by simp
      then have "\<exists>vs. r # rs = map Ok vs" by (rule exI)
      then show ?thesis by (rule disjI1)
    next
      assume "\<exists>vs e ys. rs = map Ok vs @ Err e # ys"
      then obtain vs e ys where "rs = map Ok vs @ Err e # ys" by blast
      then have "r # rs = map Ok (v # vs) @ Err e # ys" using Ok by simp
      then have "\<exists>vs e ys. r # rs = map Ok vs @ Err e # ys" by (intro exI)
      then show ?thesis by (rule disjI2)
    qed
  next
    case (Err e)
    then have "r # rs = map Ok [] @ Err e # rs" by simp
    then have "\<exists>vs e ys. r # rs = map Ok vs @ Err e # ys" by (intro exI)
    then show ?thesis by (rule disjI2)
  qed
qed

lemma combineWithAllErrors_loop_eq:
  "combineWithAllErrors_loop vs es rs = (vs @ ok_values rs, es @ err_values rs)"
proof (induction rs arbitrary: vs es)
  case Nil
  then show ?case by simp
next
  case (Cons r rs)
  then show ?case by (cases r) simp_all
qed

lemma combineWithAllErrors_eq:
  "combineWithAllErrors rs =
     (if err_values rs = [] then Ok (ok_values rs) else Err (err_values rs))"
  by (simp add: combineWithAllErrors_def combineWithAllErrors_loop_eq ok_def err_def)

lemma exists_isErr_iff: "(\<exists>r\<in>set rs. isErr r) \<longleftrightarrow> err_values rs \<noteq> []"
proof (induction rs)
  case Nil
  then show ?case by simp
next
  case (Cons r rs)
  then show ?case by (cases r) simp_all
qed

lemma ok_values_map_Ok: "ok_values (map Ok vs) = vs"
  by (induction vs) simp_all

lemma err_values_map_Ok: "err_values (map Ok vs) = []"
  by (induction vs) simp_all

text \<open>
  Claim C1. \<open>combine\<close> of a list whose elements are all \<open>Ok\<close> is \<open>Ok\<close> of the payloads
  in input order, \<open>Ok []\<close> on the empty list; when the list has an \<open>Err\<close>, it is the
  first \<open>Err\<close>, whatever follows it. Every list has one of these two shapes.
  \<open>combineWithAllErrors\<close> is \<open>Err\<close> of all error payloads in encounter order when some
  element is \<open>Err\<close>, and \<open>Ok\<close> of all payloads otherwise. On
  \<open>[ok(1), err('a'), err('b')]\<close> the first gives \<open>Err('a')\<close>, the second
  \<open>Err(['a','b'])\<close>.
\<close>

theorem combine_and_combineWithAllErrors:
  fixes vs :: "'t list" and e :: 'e and ys rs :: "('t, 'e) result list"
  shows "combine (map Ok vs) = (Ok vs :: ('t list, 'e) result)
   \<and> combine ([] :: ('t, 'e) result list) = Ok []
   \<and> combine (map Ok vs @ Err e # ys) = Err e
   \<and> ((\<exists>vs. rs = map Ok vs) \<or> (\<exists>vs e ys. rs = map Ok vs @ Err e # ys))
   \<and> ((\<exists>r\<in>set rs. isErr r) \<longrightarrow> combineWithAllErrors rs = Err (err_values rs))
   \<and> combineWithAllErrors (map Ok vs) = (Ok vs :: ('t list, 'e list) result)
   \<and> combine [Ok (1::int), Err ''a'', Err ''b''] = Err ''a''
   \<and> combineWithAllErrors [Ok (1::int), Err ''a'', Err ''b''] = Err [''a'', ''b'']"
proof -
  have "combine ([] :: ('t, 'e) result list) = Ok []"
    using combine_map_Ok [of "[]"] by simp
  moreover have "combine [Ok (1::int), Err ''a'', Err ''b''] = Err ''a''"
    using combine_first_Err [of "[1::int]" "''a''" "[Err ''b'']"] by simp
  moreover have "combineWithAllErrors [Ok (1::int), Err ''a'', Err ''b''] = Err [''a'', ''b'']"
    by (simp add: combineWithAllErrors_eq)
  moreover have "(\<exists>vs. rs = map Ok vs) \<or> (\<exists>vs e ys. rs = map Ok vs @ Err e # ys)"
    by (rule result_list_shape)
  ultimately show ?thesis
    by (simp add: combine_map_Ok combine_first_Err combineWithAllErrors_eq exists_isErr_iff
        ok_values_map_Ok err_values_map_Ok)
qed

theorem combine_and_combineWithAllErrors_witness:
  "(\<exists>r\<in>set [Ok (1::int), Err ''a'', Err ''b'']. isErr r)
   \<and> combineWithAllErrors [Ok (1::int), Err ''a'', Err ''b'']
       = Err (err_values [Ok (1::int), Err ''a'', Err ''b''])
   \<and> err_values [Ok (1::int), Err ''a'', Err ''b''] = [''a'', ''b'']
   \<and> combine (map Ok [1::int, 2] @ Err ''a'' # [Ok (3::int), Err ''b'']) = Err ''a''"
  using combine_and_combineWithAllErrors
    [of "[1::int, 2]" "''a''" "[Ok (3::int), Err ''b'']" "[Ok (1::int), Err ''a'', Err ''b'']"]
  by simp

lemma all_loop_eq_combine_loop: "all_loop acc rs = combine_loop acc rs"
proof (induction rs arbitrary: acc)
  case Nil
  then show ?case by simp
next
  case (Cons r rs)
  then show ?case by (cases r) simp_all
qed

text \<open>
  Claim C10. For every list of results, \<open>all\<close> returns the same value as \<open>combine\<close>: the
  same \<open>Ok\<close> payload list in the same order, or the same first error.
\<close>

theorem all_refines_combine: "all rs = combine rs"
  by (simp add: all_def combine_def all_loop_eq_combine_loop)

lemma any_loop_first_ok: "any_loop le (map Err es @ Ok v # ys) = Ok v"
  by (induction es arbitrary: le) simp_all

lemma any_loop_all_err:
  "any_loop le (map Err es) = Err (if es = [] then le else Some (last es))"
proof (induction es arbitrary: le)
  case Nil
  then show ?case by (simp add: err_def)
next
  case (Cons e es)
  then show ?case by simp
qed

text \<open>
  Claim C6. \<open>any\<close> returns the first \<open>Ok\<close> element, whatever follows it; when every
  element is \<open>Err\<close> and there is at least one, it returns \<open>Err\<close> of the last element's
  error payload; on the empty list it returns \<open>Err\<close> of \<open>undefined\<close> (\<open>None\<close>).
\<close>

theorem any_first_ok_or_last_err:
  fixes es :: "'e list" and v :: 't and ys :: "('t, 'e) result list"
  shows "any (map Err es @ Ok v # ys) = Ok v
   \<and> (es \<noteq> [] \<longrightarrow> any (map Err es) = (Err (Some (last es)) :: ('t, 'e option) result))
   \<and> any ([] :: ('t, 'e) result list) = Err None"
proof -
  have "any (map Err es @ Ok v # ys) = Ok v"
    by (simp add: any_def any_loop_first_ok)
  moreover have "any ([] :: ('t, 'e) result list) = Err None"
    by (simp add: any_def err_def)
  ultimately show ?thesis
    by (simp add: any_def any_loop_all_err)
qed

theorem any_first_ok_or_last_err_witness:
  "[''e1'', ''e2''] \<noteq> []
   \<and> any (map Err [''e1'', ''e2'']) = (Err (Some ''e2'') :: (int, string option) result)
   \<and> any (map Err [''e1''] @ Ok (42::int) # [Err ''e2'']) = Ok 42"
  using any_first_ok_or_last_err [of "[''e1'', ''e2'']" "42::int" "[]"]
        any_first_ok_or_last_err [of "[''e1'']" "42::int" "[Err ''e2'']"]
  by simp

section \<open>Properties of the construction helpers\<close>

text \<open>
  Claim C9. \<open>fromNullable(v, e)\<close> is \<open>Ok(v)\<close> exactly when \<open>v\<close> is neither \<open>null\<close> nor
  \<open>undefined\<close>, and \<open>Err(e)\<close> exactly when it is one of them. In particular \<open>0\<close>,
  \<open>false\<close> and the empty string give \<open>Ok\<close> of themselves.
\<close>

theorem fromNullable_only_nullish_fails:
  "fromNullable (NonNull v) e = Ok (NonNull v)
   \<and> fromNullable JsNull e = Err e
   \<and> fromNullable JsUndefined e = Err e
   \<and> (fromNullable x e = Ok x \<longleftrightarrow> x \<noteq> JsNull \<and> x \<noteq> JsUndefined)
   \<and> (fromNullable x e = Err e \<longleftrightarrow> x = JsNull \<or> x = JsUndefined)
   \<and> (isOk (fromNullable x e) \<longleftrightarrow> x \<noteq> JsNull \<and> x \<noteq> JsUndefined)
   \<and> fromNullable (NonNull (0::int)) e = Ok (NonNull 0)
   \<and> fromNullable (NonNull False) e = Ok (NonNull False)
   \<and> fromNullable (NonNull '''') e = Ok (NonNull '''')"
  by (cases x) (simp_all add: fromNullable_def ok_def err_def)

section \<open>Properties of the methods\<close>

text \<open>
  Claim C2. The functor and monad laws, as equalities of calls (same returned value, same
  state, nothing thrown). A pure function \<open>f\<close> is the callback that returns \<open>f x\<close> and
  does nothing else. Identity: \<open>r.map(x => x)\<close> is \<open>r\<close>. Composition:
  \<open>r.map(f).map(g)\<close> is \<open>r.map(x => g(f(x)))\<close>. Left identity: \<open>ok(a).andThen(fn)\<close>
  is \<open>fn(a)\<close>, for every callback \<open>fn\<close>. Right identity: \<open>r.andThen(x => ok(x))\<close> is
  \<open>r\<close>.
\<close>

theorem functor_and_monad_laws:
  fixes r :: "('t, 'e) result" and f :: "'t \<Rightarrow> 'u" and g :: "'u \<Rightarrow> 'w" and a :: 't
    and fn :: "'t \<Rightarrow> ('s, 'x, ('u, 'e) result) js"
  shows "map_result r (\<lambda>x. js_return x) = (js_return r :: ('s, 'x, ('t, 'e) result) js)
   \<and> js_bind (map_result r (\<lambda>x. js_return (f x))) (\<lambda>r'. map_result r' (\<lambda>y. js_return (g y)))
       = (map_result r (\<lambda>x. js_return (g (f x))) :: ('s, 'x, ('w, 'e) result) js)
   \<and> andThen (ok a) fn = fn a
   \<and> andThen r (\<lambda>x. js_return (ok x)) = (js_return r :: ('s, 'x, ('t, 'e) result) js)"
  by (cases r) (simp_all add: js_bind_def js_return_def ok_def err_def)

text \<open>
  Claim C3. On \<open>Err\<close>, \<open>map\<close> and \<open>andThen\<close> return the same \<open>Err\<close>; on \<open>Ok\<close>, \<open>mapErr\<close>
  and \<open>orElse\<close> (of either implementation file) return the same \<open>Ok\<close>. This holds for
  every callback, also one that throws or changes the state: the call returns normally
  and leaves the state as it was, so the callback has not run.
\<close>

theorem foreign_handler_never_invoked:
  fixes e :: 'e and v :: 't and s :: 's
    and fn_map :: "'t \<Rightarrow> ('s, 'x, 'u) js"
    and fn_andThen :: "'t \<Rightarrow> ('s, 'x, ('u, 'e) result) js"
    and fn_mapErr :: "'e \<Rightarrow> ('s, 'x, 'f) js"
    and fn_orElse :: "'e \<Rightarrow> ('s, 'x, ('t, 'f) result) js"
  shows "map_result (Err e) fn_map s = (Inr (Err e), s)
   \<and> andThen (Err e) fn_andThen s = (Inr (Err e), s)
   \<and> mapErr (Ok v) fn_mapErr s = (Inr (Ok v), s)
   \<and> orElse str (Ok v) fn_orElse s = (Inr (Ok v), s)
   \<and> orElse_second (Ok v) fn_orElse s = (Inr (Ok v), s)"
  by (simp add: js_return_def ok_def err_def)

theorem foreign_handler_never_invoked_witness:
  "andThen (Err ''x'') (spy :: int \<Rightarrow> (nat, string, (int, string) result) js) 0
     = (Inr (Err ''x''), 0)
   \<and> map_result (Err ''x'') (spy :: int \<Rightarrow> (nat, string, int) js) 0 = (Inr (Err ''x''), 0)
   \<and> orElse String_string (Ok (1::int)) (spy :: string \<Rightarrow> (nat, string, (int, string) result) js) 0
     = (Inr (Ok 1), 0)"
  using foreign_handler_never_invoked [where e = "''x''" and s = "0::nat"
      and fn_map = "spy :: int \<Rightarrow> (nat, string, int) js"
      and fn_andThen = "spy :: int \<Rightarrow> (nat, string, (int, string) result) js"
      and v = "1::int" and str = "String_string :: string \<Rightarrow> (nat, string, string) js"
      and fn_mapErr = "spy :: string \<Rightarrow> (nat, string, string) js"
      and fn_orElse = "spy :: string \<Rightarrow> (nat, string, (int, string) result) js"]
  by simp

text \<open>
  Claim C4, as the code has it. On \<open>Err\<close> carrying \<open>e\<close>, when \<open>String(e)\<close> returns a
  string, \<open>unwrap()\<close> throws the error whose message is \<open>Called unwrap on an Err value: \<close>
  followed by that string, and \<open>expect(msg)\<close> throws the error whose message is \<open>msg\<close>,
  then a colon and a space, then that string. When \<open>String(e)\<close> throws, \<open>unwrap()\<close> and
  \<open>expect(msg)\<close> throw what it has thrown. In both cases they fail. On \<open>Ok\<close> carrying
  \<open>v\<close> both return \<open>v\<close>, without a call of \<open>String\<close>.
\<close>

theorem unwrap_expect_messages:
  fixes e :: 'e and v :: 't and str :: "'e \<Rightarrow> ('s, 'x, string) js"
  shows "(str e s = (Inr shown, s')
        \<longrightarrow> (unwrap str (Err e) s :: ('x thrown + 't) \<times> 's)
              = (Inl (JsError (''Called unwrap on an Err value: '' @ shown)), s')
            \<and> (expect str (Err e) msg s :: ('x thrown + 't) \<times> 's)
              = (Inl (JsError (msg @ '': '' @ shown)), s'))
   \<and> (str e s = (Inl x, s')
        \<longrightarrow> (unwrap str (Err e) s :: ('x thrown + 't) \<times> 's) = (Inl x, s')
            \<and> (expect str (Err e) msg s :: ('x thrown + 't) \<times> 's) = (Inl x, s'))
   \<and> (\<exists>y s1. (unwrap str (Err e) s :: ('x thrown + 't) \<times> 's) = (Inl y, s1))
   \<and> (\<exists>y s1. (expect str (Err e) msg s :: ('x thrown + 't) \<times> 's) = (Inl y, s1))
   \<and> unwrap str (Ok v) s = (Inr v, s)
   \<and> expect str (Ok v) msg s = (Inr v, s)"
proof -
  obtain out s1 where run: "str e s = (out, s1)" by (cases "str e s")
  have "\<exists>y s1. (unwrap str (Err e) s :: ('x thrown + 't) \<times> 's) = (Inl y, s1)"
    using run by (cases out) (simp_all add: js_bind_def js_throw_def)
  moreover have "\<exists>y s1. (expect str (Err e) msg s :: ('x thrown + 't) \<times> 's) = (Inl y, s1)"
    using run by (cases out) (simp_all add: js_bind_def js_throw_def)
  ultimately show ?thesis
    by (simp add: js_bind_def js_throw_def js_return_def)
qed

theorem unwrap_expect_messages_witness:
  "String_jsobj (Text ''x'') (0::nat) = (Inr ''x'', 0)
   \<and> (unwrap String_jsobj (Err (Text ''x'')) (0::nat) :: (jsobj thrown + int) \<times> nat)
       = (Inl (JsError ''Called unwrap on an Err value: x''), 0)
   \<and> (expect String_jsobj (Err (Text ''x'')) ''boom'' (0::nat) :: (jsobj thrown + int) \<times> nat)
       = (Inl (JsError ''boom: x''), 0)
   \<and> String_jsobj NullPrototypeObject (0::nat)
       = (Inl (JsValue (TypeError ''Cannot convert object to primitive value'')), 0)
   \<and> (unwrap String_jsobj (Err NullPrototypeObject) (0::nat) :: (jsobj thrown + int) \<times> nat)
       = (Inl (JsValue (TypeError ''Cannot convert object to primitive value'')), 0)"
  using unwrap_expect_messages [where str = "String_jsobj :: jsobj \<Rightarrow> (nat, jsobj, string) js"
      and e = "Text ''x''" and s = 0 and shown = "''x''" and s' = 0 and msg = "''boom''"
      and x = "JsValue (TypeError ''Cannot convert object to primitive value'')"
      and v = "1::int"]
    unwrap_expect_messages [where str = "String_jsobj :: jsobj \<Rightarrow> (nat, jsobj, string) js"
      and e = "NullPrototypeObject" and s = 0 and shown = "''x''" and s' = 0 and msg = "''boom''"
      and x = "JsValue (TypeError ''Cannot convert object to primitive value'')"
      and v = "1::int"]
  by (simp add: js_return_def js_throw_def)

text \<open>
  The message of \<open>expect\<close> is not the caller's message directly followed by the
  stringified error: \<open>err('x').expect('boom')\<close> throws the message \<open>boom: x\<close>. And on a
  payload that \<open>String\<close> cannot convert, \<open>unwrap\<close> and \<open>expect\<close> throw the \<open>TypeError\<close> of
  \<open>String\<close>, which carries no stringified payload.
\<close>

theorem expect_message_counterexample:
  "(expect String_jsobj (Err (Text ''x'')) ''boom'' (0::nat) :: (jsobj thrown + int) \<times> nat)
       = (Inl (JsError ''boom: x''), 0)
   \<and> (expect String_jsobj (Err (Text ''x'')) ''boom'' (0::nat) :: (jsobj thrown + int) \<times> nat)
       \<noteq> (Inl (JsError (''boom'' @ ''x'')), 0)
   \<and> (unwrap String_jsobj (Err NullPrototypeObject) (0::nat) :: (jsobj thrown + int) \<times> nat)
       = (Inl (JsValue (TypeError ''Cannot convert object to primitive value'')), 0)
   \<and> (expect String_jsobj (Err NullPrototypeObject) ''boom'' (0::nat)
         :: (jsobj thrown + int) \<times> nat)
       = (Inl (JsValue (TypeError ''Cannot convert object to primitive value'')), 0)"
  by (simp add: js_bind_def js_return_def js_throw_def)

section \<open>Properties of \<open>tryCatch\<close>\<close>

text \<open>
  An exception does escape \<open>tryCatch\<close> when the error handler itself throws: the call
  of the handler is inside the \<open>catch\<close> block, outside any \<open>try\<close>.
\<close>

theorem tryCatch_handler_exception_escapes:
  "tryCatch throwing_thunk (Some throwing_handler) 0 = (Inl (JsValue ''second''), 0)"
  by (simp add: tryCatch_def throwing_thunk_def throwing_handler_def js_try_catch_def
      js_bind_def js_throw_def js_return_def)

lemma tryCatch_no_handler_returns:
  fixes fn :: "('s, 'x, 't) js"
  shows "\<exists>r s'. tryCatch fn None s = (Inr r, s')"
proof (cases "fn s")
  case (Pair out s1)
  then show ?thesis
    by (cases out) (simp_all add: tryCatch_def js_try_catch_def js_bind_def js_return_def)
qed

lemma tryCatch_escape_origin:
  fixes fn :: "('s, 'x, 't) js"
  assumes "tryCatch fn errorHandler s = (Inl y, s2)"
  shows "\<exists>handler x s1. errorHandler = Some handler \<and> fn s = (Inl x, s1)
           \<and> handler x s1 = (Inl y, s2)"
proof (cases "fn s")
  case (Pair out s1)
  show ?thesis
  proof (cases out)
    case (Inl x)
    show ?thesis
    proof (cases errorHandler)
      case None
      with assms Pair Inl show ?thesis
        by (simp add: tryCatch_def js_try_catch_def js_bind_def js_return_def)
    next
      case (Some handler)
      obtain out2 s3 where h: "handler x s1 = (out2, s3)" by (cases "handler x s1")
      with assms Pair Inl Some have "out2 = Inl y \<and> s3 = s2"
        by (cases out2) (simp_all add: tryCatch_def js_try_catch_def js_bind_def js_return_def)
      with h Pair Inl Some show ?thesis by simp
    qed
  next
    case (Inr v)
    with assms Pair show ?thesis
      by (simp add: tryCatch_def js_try_catch_def js_bind_def js_return_def)
  qed
qed

text \<open>
  Claim C5, as the code has it. When \<open>fn\<close> returns \<open>v\<close>, \<open>tryCatch\<close> returns \<open>Ok v\<close>.
  When \<open>fn\<close> throws \<open>x\<close> and no handler is given, it returns \<open>Err x\<close>. When \<open>fn\<close>
  throws \<open>x\<close> and the handler returns \<open>e\<close> for it, it returns \<open>Err e\<close>. When the handler
  throws \<open>y\<close>, \<open>tryCatch\<close> throws \<open>y\<close>. Without a handler no exception escapes, and
  an exception that escapes is always one that the handler has thrown.
\<close>

theorem tryCatch_captures:
  fixes fn :: "('s, 'x, 't) js"
    and handler :: "'x thrown \<Rightarrow> ('s, 'x, 'x thrown) js"
  shows "(fn s = (Inr v, s') \<longrightarrow> tryCatch fn errorHandler s = (Inr (Ok v), s'))
   \<and> (fn s = (Inl x, s') \<longrightarrow> tryCatch fn None s = (Inr (Err x), s'))
   \<and> (fn s = (Inl x, s') \<and> handler x s' = (Inr e, s'')
        \<longrightarrow> tryCatch fn (Some handler) s = (Inr (Err e), s''))
   \<and> (fn s = (Inl x, s') \<and> handler x s' = (Inl y, s'')
        \<longrightarrow> tryCatch fn (Some handler) s = (Inl y, s''))
   \<and> (\<exists>r s1. tryCatch fn None s = (Inr r, s1))
   \<and> (tryCatch fn errorHandler s = (Inl z, s2)
        \<longrightarrow> (\<exists>h x1 s1. errorHandler = Some h \<and> fn s = (Inl x1, s1) \<and> h x1 s1 = (Inl z, s2)))"
proof -
  have "\<exists>r s1. tryCatch fn None s = (Inr r, s1)"
    by (rule tryCatch_no_handler_returns)
  moreover have "tryCatch fn errorHandler s = (Inl z, s2)
      \<longrightarrow> (\<exists>h x1 s1. errorHandler = Some h \<and> fn s = (Inl x1, s1) \<and> h x1 s1 = (Inl z, s2))"
    using tryCatch_escape_origin [of fn errorHandler s z s2] by blast
  moreover have "(fn s = (Inr v, s') \<longrightarrow> tryCatch fn errorHandler s = (Inr (Ok v), s'))
   \<and> (fn s = (Inl x, s') \<longrightarrow> tryCatch fn None s = (Inr (Err x), s'))
   \<and> (fn s = (Inl x, s') \<and> handler x s' = (Inr e, s'')
        \<longrightarrow> tryCatch fn (Some handler) s = (Inr (Err e), s''))
   \<and> (fn s = (Inl x, s') \<and> handler x s' = (Inl y, s'')
        \<longrightarrow> tryCatch fn (Some handler) s = (Inl y, s''))"
    by (simp add: tryCatch_def js_try_catch_def js_bind_def js_return_def ok_def err_def)
  ultimately show ?thesis by blast
qed

theorem tryCatch_captures_witness:
  "throwing_thunk 0 = (Inl (JsValue ''first''), 0)
   \<and> message_handler (JsValue ''first'') 0 = (Inr (JsValue ''handled: first''), 0)
   \<and> tryCatch throwing_thunk (Some message_handler) 0 = (Inr (Err (JsValue ''handled: first'')), 0)
   \<and> tryCatch throwing_thunk None 0 = (Inr (Err (JsValue ''first'')), 0)
   \<and> (js_return 7 :: (nat, string, int) js) 0 = (Inr 7, 0)
   \<and> tryCatch (js_return 7 :: (nat, string, int) js) None 0 = (Inr (Ok 7), 0)"
  using tryCatch_captures [where fn = throwing_thunk and s = 0 and v = 7 and s' = 0
      and errorHandler = None and x = "JsValue ''first''" and handler = message_handler
      and e = "JsValue ''handled: first''" and s'' = 0 and y = "JsValue ''second''"
      and z = "JsValue ''second''" and ?s2.0 = 0]
    tryCatch_captures [where fn = "js_return 7 :: (nat, string, int) js" and s = 0 and v = 7
      and s' = 0 and errorHandler = None and x = "JsValue ''first''" and handler = message_handler
      and e = "JsValue ''handled: first''" and s'' = 0 and y = "JsValue ''second''"
      and z = "JsValue ''second''" and ?s2.0 = 0]
  by (simp add: throwing_thunk_def message_handler_def js_throw_def js_return_def)

section \<open>Properties of \<open>orElse\<close> in the two implementation files\<close>

text \<open>
  The two files differ when the handler throws: the first throws a new \<open>Error\<close> that
  wraps the stringified exception, the second lets the exception through.
\<close>

theorem orElse_wraps_handler_exception:
  "boom_handler ''e'' 0 = (Inl (JsValue ''boom''), 0)
   \<and> orElse String_string (Err ''e'') boom_handler 0
       = (Inl (JsError ''orElse handler threw: boom''), 0)
   \<and> orElse_second (Err ''e'') boom_handler 0 = (Inl (JsValue ''boom''), 0)
   \<and> orElse String_string (Err ''e'') boom_handler 0 \<noteq> orElse_second (Err ''e'') boom_handler 0"
  by (simp add: boom_handler_def String_string_def js_try_catch_def js_bind_def js_throw_def
      js_return_def)

lemma String_thrown_JsError:
  "String_thrown str (JsError m) s = (out, s1)
     \<longleftrightarrow> out = Inr (if m = [] then ''Error'' else ''Error: '' @ m) \<and> s1 = s"
  by (auto simp add: js_return_def)

text \<open>
  When the handler throws \<open>x\<close> and \<open>String(x)\<close> returns, the \<open>Error\<close> of the first file
  is never \<open>x\<close> itself: its message would have to contain itself.
\<close>

lemma orElse_wrapped_differs:
  assumes "String_thrown str x s1 = (Inr shown, s2)"
  shows "x \<noteq> JsError (''orElse handler threw: '' @ shown)"
proof
  assume eq: "x = JsError (''orElse handler threw: '' @ shown)"
  with assms have "shown = ''Error: '' @ ''orElse handler threw: '' @ shown"
    by (simp add: js_return_def)
  then have "length shown = length (''Error: '' @ ''orElse handler threw: '' @ shown)"
    by simp
  then show False by simp
qed

lemma orElse_agreement:
  fixes fn :: "'e \<Rightarrow> ('s, 'x, ('t, 'f) result) js"
  shows "orElse str (Err e) fn s = orElse_second (Err e) fn s
     \<longleftrightarrow> (\<exists>r s1. fn e s = (Inr r, s1))
          \<or> (\<exists>x s1. fn e s = (Inl x, s1) \<and> String_thrown str x s1 = (Inl x, s1))"
proof -
  obtain out s1 where run: "fn e s = (out, s1)" by (cases "fn e s")
  show ?thesis
  proof (cases out)
    case (Inr r)
    with run show ?thesis by (simp add: js_try_catch_def)
  next
    case (Inl x)
    obtain out2 s2 where conv: "String_thrown str x s1 = (out2, s2)"
      by (cases "String_thrown str x s1")
    show ?thesis
    proof (cases out2)
      case (Inl y)
      with run \<open>out = Inl x\<close> conv show ?thesis
        by (simp add: js_try_catch_def js_bind_def)
    next
      case (Inr shown)
      with conv have "String_thrown str x s1 = (Inr shown, s2)" by simp
      then have "x \<noteq> JsError (''orElse handler threw: '' @ shown)"
        by (rule orElse_wrapped_differs)
      with run \<open>out = Inl x\<close> conv Inr show ?thesis
        by (auto simp add: js_try_catch_def js_bind_def js_throw_def)
    qed
  qed
qed

text \<open>
  Claim C7, as the code has it. On \<open>Err\<close> carrying \<open>e\<close>, when \<open>fn(e)\<close> returns a result
  both files return it. When \<open>fn(e)\<close> throws \<open>x\<close>, the second file throws \<open>x\<close>
  untouched. The first file then calls \<open>String(x)\<close>: when that returns a string, it throws
  an \<open>Error\<close> with the message \<open>orElse handler threw: \<close> followed by the string; when
  that throws \<open>y\<close>, it throws \<open>y\<close>. The two files give the same outcome exactly when the
  handler returns, or when it throws an \<open>x\<close> for which \<open>String(x)\<close> throws \<open>x\<close> again
  and leaves the state as it is.
\<close>

theorem orElse_on_Err:
  fixes fn :: "'e \<Rightarrow> ('s, 'x, ('t, 'f) result) js"
  shows "(fn e s = (Inr r, s')
        \<longrightarrow> orElse str (Err e) fn s = (Inr r, s') \<and> orElse_second (Err e) fn s = (Inr r, s'))
   \<and> (fn e s = (Inl x, s') \<longrightarrow> orElse_second (Err e) fn s = (Inl x, s'))
   \<and> (fn e s = (Inl x, s') \<and> String_thrown str x s' = (Inr shown, s'')
        \<longrightarrow> orElse str (Err e) fn s
              = (Inl (JsError (''orElse handler threw: '' @ shown)), s''))
   \<and> (fn e s = (Inl x, s') \<and> String_thrown str x s' = (Inl y, s'')
        \<longrightarrow> orElse str (Err e) fn s = (Inl y, s''))
   \<and> (orElse str (Err e) fn s = orElse_second (Err e) fn s
        \<longleftrightarrow> (\<exists>r s1. fn e s = (Inr r, s1))
            \<or> (\<exists>x s1. fn e s = (Inl x, s1) \<and> String_thrown str x s1 = (Inl x, s1)))"
proof -
  have "orElse str (Err e) fn s = orElse_second (Err e) fn s
        \<longleftrightarrow> (\<exists>r s1. fn e s = (Inr r, s1))
            \<or> (\<exists>x s1. fn e s = (Inl x, s1) \<and> String_thrown str x s1 = (Inl x, s1))"
    by (rule orElse_agreement)
  moreover have "(fn e s = (Inr r, s')
        \<longrightarrow> orElse str (Err e) fn s = (Inr r, s') \<and> orElse_second (Err e) fn s = (Inr r, s'))
   \<and> (fn e s = (Inl x, s') \<longrightarrow> orElse_second (Err e) fn s = (Inl x, s'))
   \<and> (fn e s = (Inl x, s') \<and> String_thrown str x s' = (Inr shown, s'')
        \<longrightarrow> orElse str (Err e) fn s
              = (Inl (JsError (''orElse handler threw: '' @ shown)), s''))
   \<and> (fn e s = (Inl x, s') \<and> String_thrown str x s' = (Inl y, s'')
        \<longrightarrow> orElse str (Err e) fn s = (Inl y, s''))"
    by (simp add: js_try_catch_def js_bind_def js_throw_def)
  ultimately show ?thesis by blast
qed

theorem orElse_on_Err_witness:
  "recover_handler ''e'' 0 = (Inr (Ok 0), 0)
   \<and> orElse String_string (Err ''e'') recover_handler 0 = (Inr (Ok 0), 0)
   \<and> orElse_second (Err ''e'') recover_handler 0 = (Inr (Ok 0), 0)
   \<and> boom_handler ''e'' 1 = (Inl (JsValue ''boom''), 1)
   \<and> String_thrown String_string (JsValue ''boom'') (1::nat) = (Inr ''boom'', 1)
   \<and> orElse String_string (Err ''e'') boom_handler 1
       = (Inl (JsError ''orElse handler threw: boom''), 1)
   \<and> orElse_second (Err ''e'') boom_handler 1 = (Inl (JsValue ''boom''), 1)
   \<and> opaque_handler ''e'' 2 = (Inl (JsValue NullPrototypeObject), 2)
   \<and> String_thrown String_jsobj (JsValue NullPrototypeObject) (2::nat)
       = (Inl (JsValue (TypeError ''Cannot convert object to primitive value'')), 2)
   \<and> orElse String_jsobj (Err ''e'') opaque_handler 2
       = (Inl (JsValue (TypeError ''Cannot convert object to primitive value'')), 2)"
  using orElse_on_Err [where fn = recover_handler and e = "''e''" and s = 0 and r = "Ok 0"
      and s' = 0 and str = String_string and x = "JsValue ''boom''" and shown = "''boom''"
      and s'' = 0 and y = "JsValue ''boom''"]
    orElse_on_Err [where fn = boom_handler and e = "''e''" and s = 1 and r = "Ok 0"
      and s' = 1 and str = String_string and x = "JsValue ''boom''" and shown = "''boom''"
      and s'' = 1 and y = "JsValue ''boom''"]
    orElse_on_Err [where fn = opaque_handler and e = "''e''" and s = 2 and r = "Ok 0"
      and s' = 2 and str = String_jsobj and x = "JsValue NullPrototypeObject"
      and shown = "''boom''" and s'' = 2
      and y = "JsValue (TypeError ''Cannot convert object to primitive value'')"]
  by (simp add: recover_handler_def boom_handler_def opaque_handler_def String_string_def
      js_return_def js_throw_def ok_def)

section \<open>Properties of \<open>parallel\<close>\<close>

lemma result_producing_step:
  assumes "\<forall>s. \<exists>t r. fst (op s) = Inr (Promise t (Inr r))"
  obtains t r s1 where "op s = (Inr (Promise t (Inr r)), s1)"
proof -
  from assms obtain t r where "fst (op s) = Inr (Promise t (Inr r))" by blast
  then have "op s = (Inr (Promise t (Inr r)), snd (op s))"
    by (simp add: prod_eq_iff)
  then show thesis by (rule that)
qed

lemma call_each_result_producing:
  assumes "\<forall>op\<in>set ops. \<forall>s. \<exists>t r. fst (op s) = Inr (Promise t (Inr r))"
  shows "\<exists>ps. call_each ops s = (Inr ps, fold (\<lambda>op s. snd (op s)) ops s)
           \<and> first_rejection best ps = best
           \<and> fulfilled_values ps = op_results ops s"
  using assms
proof (induction ops arbitrary: s)
  case Nil
  then show ?case by (simp add: js_return_def)
next
  case (Cons op ops)
  from Cons.prems have "\<forall>s. \<exists>t r. fst (op s) = Inr (Promise t (Inr r))"
    by simp
  then obtain t r s1 where step: "op s = (Inr (Promise t (Inr r)), s1)"
    by (rule result_producing_step)
  from Cons.prems have "\<forall>op\<in>set ops. \<forall>s. \<exists>t r. fst (op s) = Inr (Promise t (Inr r))"
    by simp
  from Cons.IH [OF this, of s1] obtain ps where
    ps: "call_each ops s1 = (Inr ps, fold (\<lambda>op s. snd (op s)) ops s1)"
      "first_rejection best ps = best"
      "fulfilled_values ps = op_results ops s1"
    by blast
  have "call_each (op # ops) s
      = (Inr (Promise t (Inr r) # ps), fold (\<lambda>op s. snd (op s)) (op # ops) s)"
    using step ps(1) by (simp add: js_bind_def js_return_def)
  moreover have "first_rejection best (Promise t (Inr r) # ps) = best"
    using ps(2) by simp
  moreover have "fulfilled_values (Promise t (Inr r) # ps) = op_results (op # ops) s"
    using step ps(3) by simp
  ultimately show ?case by blast
qed

lemma op_results_length:
  assumes "\<forall>op\<in>set ops. \<forall>s. \<exists>t r. fst (op s) = Inr (Promise t (Inr r))"
  shows "length (op_results ops s) = length ops"
  using assms
proof (induction ops arbitrary: s)
  case Nil
  then show ?case by simp
next
  case (Cons op ops)
  from Cons.prems have "\<forall>s. \<exists>t r. fst (op s) = Inr (Promise t (Inr r))"
    by simp
  then obtain t r s1 where step: "op s = (Inr (Promise t (Inr r)), s1)"
    by (rule result_producing_step)
  from Cons.prems have "\<forall>op\<in>set ops. \<forall>s. \<exists>t r. fst (op s) = Inr (Promise t (Inr r))"
    by simp
  from Cons.IH [OF this, of s1] show ?case using step by simp
qed

text \<open>
  Claim C8. For operations that each hand back a promise fulfilled with a result:
  \<open>parallel\<close> calls every operation once, in index order, also after an operation whose
  result is \<open>Err\<close> (the final state is the state after each call in turn), and its result
  is \<open>combine\<close> of the results by index, whatever the settle times: \<open>Ok\<close> of the
  payloads by index when all are \<open>Ok\<close>, else \<open>Err\<close> of the lowest-indexed \<open>Err\<close>.
\<close>

theorem parallel_runs_every_operation:
  fixes ops :: "('s, 'x, ('x, ('t, 'e) result) promise) js list"
  assumes "\<forall>op\<in>set ops. \<forall>s. \<exists>t r. fst (op s) = Inr (Promise t (Inr r))"
  shows "parallel ops s = (Inr (combine (op_results ops s)), fold (\<lambda>op s. snd (op s)) ops s)
   \<and> length (op_results ops s) = length ops
   \<and> (\<forall>vs. op_results ops s = map Ok vs \<longrightarrow> fst (parallel ops s) = Inr (Ok vs))
   \<and> (\<forall>vs e rs. op_results ops s = map Ok vs @ Err e # rs
         \<longrightarrow> fst (parallel ops s) = Inr (Err e))"
proof -
  from call_each_result_producing [OF assms, of s None] obtain ps where
    ps: "call_each ops s = (Inr ps, fold (\<lambda>op s. snd (op s)) ops s)"
      "first_rejection None ps = None"
      "fulfilled_values ps = op_results ops s"
    by blast
  have main: "parallel ops s
      = (Inr (combine (op_results ops s)), fold (\<lambda>op s. snd (op s)) ops s)"
    using ps by (simp add: parallel_def await_Promise_all_def js_bind_def js_return_def)
  moreover have "length (op_results ops s) = length ops"
    by (rule op_results_length [OF assms])
  ultimately show ?thesis
    by (simp add: combine_map_Ok combine_first_Err)
qed

theorem parallel_runs_every_operation_witness:
  "parallel [counted_op 30 (Ok 1), counted_op 25 (Err ''e2''), counted_op 5 (Err ''e3'')] 0
     = (Inr (Err ''e2''), 3)
   \<and> parallel [counted_op 30 (Ok 1), counted_op 10 (Ok 2), counted_op 20 (Ok 3)] 0
     = (Inr (Ok [1, 2, 3]), 3)"
proof -
  have hyp: "\<forall>op\<in>set [counted_op 30 (Ok 1), counted_op t2 r2, counted_op t3 r3].
      \<forall>s. \<exists>t r. fst (op s) = Inr (Promise t (Inr r))" for t2 r2 t3 r3
    by (simp add: counted_op_def)
  show ?thesis
    using parallel_runs_every_operation [OF hyp [of 25 "Err ''e2''" 5 "Err ''e3''"], of 0]
      parallel_runs_every_operation [OF hyp [of 10 "Ok 2" 20 "Ok 3"], of 0]
    by (simp add: counted_op_def combine_def ok_def err_def)
qed

end
